theory Spec2Isabelle
  imports Main "HOL-Library.Word" "HOL-Library.Option_ord"
begin

section \<open>Strings, errors and identifiers\<close>

text \<open>
  A JavaScript string is a sequence of UTF-16 code units; \<open>.length\<close> counts them.
  A field that may be \<open>undefined\<close> or \<open>null\<close> is an \<open>option\<close>.
\<close>

type_synonym jsstring = "16 word list"

definition lit :: "string \<Rightarrow> jsstring" where
  "lit s = map (\<lambda>c. of_nat (of_char c)) s"

text \<open>The code units that \<open>String.prototype.trim\<close> strips: white space and line terminators.\<close>

definition isWhiteSpace :: "16 word \<Rightarrow> bool" where
  "isWhiteSpace c \<longleftrightarrow>
     c \<in> set [0x09, 0x0A, 0x0B, 0x0C, 0x0D, 0x20, 0xA0, 0x1680,
               0x2028, 0x2029, 0x202F, 0x205F, 0x3000, 0xFEFF]
     \<or> (0x2000 \<le> c \<and> c \<le> 0x200A)"

definition trim :: "jsstring \<Rightarrow> jsstring" where
  "trim s = rev (dropWhile isWhiteSpace (rev (dropWhile isWhiteSpace s)))"

text \<open>Truthiness of a string-or-undefined value, and \<open>a || b\<close> with a string \<open>b\<close>.\<close>

definition truthy :: "jsstring option \<Rightarrow> bool" where
  "truthy v = (case v of None \<Rightarrow> False | Some s \<Rightarrow> s \<noteq> [])"

definition orElse :: "jsstring option \<Rightarrow> jsstring \<Rightarrow> jsstring" where
  "orElse v d = (case v of None \<Rightarrow> d | Some s \<Rightarrow> if s = [] then d else s)"

text \<open>
  What an operation can raise: \<open>TypeError\<close> for a property read on \<open>undefined\<close>,
  \<open>BSONError\<close> for a string that is no ObjectId, \<open>Error msg\<close> for \<open>throw new Error(msg)\<close>,
  and the three failures of the Mongoose layer: schema validation (with the failing paths),
  a filter value that cannot be cast, and a unique index violation (E11000).
\<close>

datatype error =
    TypeError
  | BSONError
  | Error jsstring
  | ValidationError "string list"
  | CastError
  | DuplicateKey

text \<open>
  An ObjectId is a 96-bit value, kept here as the number it denotes. The constructor
  \<open>new mongoose.Types.ObjectId(s)\<close> accepts a string of 24 hexadecimal digits (either
  case) and throws on any other string. (Releases of the library before its sixth also
  read a string of exactly 12 characters as the 12 bytes; no statement below is about
  such a string.)
\<close>

type_synonym objectid = nat

definition hexDigit :: "16 word \<Rightarrow> nat option" where
  "hexDigit c =
     (if 0x30 \<le> c \<and> c \<le> 0x39 then Some (unat c - 48)
      else if 0x61 \<le> c \<and> c \<le> 0x66 then Some (unat c - 87)
      else if 0x41 \<le> c \<and> c \<le> 0x46 then Some (unat c - 55)
      else None)"

definition ObjectId :: "jsstring \<Rightarrow> error + objectid" where
  "ObjectId s =
     (if length s = 24 \<and> list_all (\<lambda>c. hexDigit c \<noteq> None) s
      then Inr (foldl (\<lambda>a c. 16 * a + the (hexDigit c)) 0 s)
      else Inl BSONError)"

text \<open>
  Mongoose casts the \<open>_id\<close> of a filter with the same constructor and reports a failure
  as a \<open>CastError\<close>. An identifier reaches the store as a string: a numeric argument is
  rendered by \<open>toString\<close> first, by the method itself or by the cast.
\<close>

definition castObjectId :: "jsstring \<Rightarrow> error + objectid" where
  "castObjectId s = (case ObjectId s of Inl e \<Rightarrow> Inl CastError | Inr oid \<Rightarrow> Inr oid)"

fun castObjectIds :: "jsstring list \<Rightarrow> error + objectid list" where
  "castObjectIds [] = Inr []"
| "castObjectIds (s # ss) =
     (case castObjectId s of
        Inl e \<Rightarrow> Inl e
      | Inr oid \<Rightarrow> (case castObjectIds ss of Inl e \<Rightarrow> Inl e | Inr oids \<Rightarrow> Inr (oid # oids)))"

text \<open>The required validator of a String path rejects an absent value and the empty string.\<close>

definition checkRequired :: "jsstring option \<Rightarrow> bool" where
  "checkRequired v = (case v of None \<Rightarrow> False | Some s \<Rightarrow> s \<noteq> [])"

definition valueOf :: "jsstring option \<Rightarrow> jsstring" where
  "valueOf v = (case v of None \<Rightarrow> [] | Some s \<Rightarrow> s)"

section \<open>Documents and the store\<close>

text \<open>
  One record per schema, the fields prefixed by the entity (\<open>u_\<close>, \<open>p_\<close>, \<open>r_\<close>, \<open>a_\<close>,
  \<open>m_\<close>), \<open>_id\<close> included. Dates are points in time, numbers are integers: both are
  only stored and compared. The paths of a stored Project that \<open>listProjects\<close> reads
  defensively are optional: a document of the collection need not carry them.
\<close>

record user_doc =
  u_id :: objectid
  u_username :: jsstring
  u_password :: jsstring
  u_email :: jsstring
  u_userType :: jsstring
  u_fullName :: jsstring
  u_company :: "jsstring option"
  u_title :: "jsstring option"
  u_bio :: "jsstring option"
  u_location :: "jsstring option"
  u_profileImage :: "jsstring option"
  u_isVerified :: bool
  u_createdAt :: nat

record project_doc =
  p_id :: objectid
  p_clientId :: "objectid option"
  p_title :: "jsstring option"
  p_description :: "jsstring option"
  p_requirements :: "jsstring option"
  p_budget :: "jsstring option"
  p_timeframe :: "jsstring option"
  p_additionalDetails :: "jsstring option"
  p_status :: "jsstring option"
  p_createdAt :: "nat option"
  p_skills :: "jsstring list"

text \<open>
  \<open>ReviewSchema\<close> declares no \<open>featured\<close> path; \<open>r_featured\<close> is the attribute of that
  name a document of the collection may or may not carry, which the filter of
  \<open>listTestimonials\<close> tests.
\<close>

record review_doc =
  r_id :: objectid
  r_projectId :: int
  r_clientId :: int
  r_hackerId :: int
  r_rating :: int
  r_comment :: "jsstring option"
  r_createdAt :: nat
  r_featured :: "bool option"

record application_doc =
  a_id :: objectid
  a_projectId :: int
  a_hackerId :: int
  a_proposal :: jsstring
  a_estimatedTime :: jsstring
  a_priceQuote :: jsstring
  a_status :: jsstring
  a_createdAt :: nat

record contact_doc =
  m_id :: objectid
  m_name :: jsstring
  m_email :: jsstring
  m_subject :: jsstring
  m_message :: jsstring
  m_inquiryType :: jsstring
  m_createdAt :: nat
  m_isRead :: bool

record store =
  users :: "user_doc list"
  projects :: "project_doc list"
  reviews :: "review_doc list"
  applications :: "application_doc list"
  contactMessages :: "contact_doc list"

definition emptyStore :: store where
  "emptyStore = \<lparr>users = [], projects = [], reviews = [], applications = [],
                  contactMessages = []\<rparr>"

text \<open>The driver gives a new document an ObjectId that no stored document has.\<close>

definition allIds :: "store \<Rightarrow> objectid list" where
  "allIds st = map u_id (users st) @ map p_id (projects st) @ map r_id (reviews st)
               @ map a_id (applications st) @ map m_id (contactMessages st)"

definition newObjectId :: "store \<Rightarrow> objectid" where
  "newObjectId st = Suc (foldr max (allIds st) 0)"

section \<open>Caller-supplied field bags\<close>

text \<open>
  Modelled from the spec: the types \<open>InsertUser\<close>, \<open>InsertProject\<close>, \<open>InsertReview\<close>,
  \<open>InsertApplication\<close> and \<open>InsertContactMessage\<close> of \<open>@shared/schema\<close>, which are
  imported by \<open>storage.ts\<close> and absent from the sources. Each is the plain field bag
  of the entity's caller-supplied attributes; every field is optional here, so that the
  same record is the \<open>Partial<...>\<close> of an update, where \<open>None\<close> is a field not supplied.
\<close>

record insert_user =
  iu_username :: "jsstring option"
  iu_password :: "jsstring option"
  iu_email :: "jsstring option"
  iu_userType :: "jsstring option"
  iu_fullName :: "jsstring option"
  iu_company :: "jsstring option"
  iu_title :: "jsstring option"
  iu_bio :: "jsstring option"
  iu_location :: "jsstring option"
  iu_profileImage :: "jsstring option"

record insert_project =
  ip_clientId :: "jsstring option"
  ip_title :: "jsstring option"
  ip_description :: "jsstring option"
  ip_requirements :: "jsstring option"
  ip_budget :: "jsstring option"
  ip_timeframe :: "jsstring option"
  ip_additionalDetails :: "jsstring option"
  ip_status :: "jsstring option"
  ip_skills :: "jsstring list option"

record insert_review =
  ir_projectId :: "int option"
  ir_clientId :: "int option"
  ir_hackerId :: "int option"
  ir_rating :: "int option"
  ir_comment :: "jsstring option"

record insert_application =
  ia_projectId :: "int option"
  ia_hackerId :: "int option"
  ia_proposal :: "jsstring option"
  ia_estimatedTime :: "jsstring option"
  ia_priceQuote :: "jsstring option"
  ia_status :: "jsstring option"

record insert_contact =
  im_name :: "jsstring option"
  im_email :: "jsstring option"
  im_subject :: "jsstring option"
  im_message :: "jsstring option"
  im_inquiryType :: "jsstring option"

definition emptyUserUpdate :: insert_user where
  "emptyUserUpdate = \<lparr>iu_username = None, iu_password = None, iu_email = None,
     iu_userType = None, iu_fullName = None, iu_company = None, iu_title = None,
     iu_bio = None, iu_location = None, iu_profileImage = None\<rparr>"

section \<open>The models: creating documents\<close>

text \<open>
  \<open>new Model(data)\<close> followed by \<open>save()\<close>: the paths of the schema are taken from the
  field bag (anything else is dropped), defaults fill what is absent, the required paths
  are validated, and only then is the document inserted. Saving fails with a
  \<open>ValidationError\<close> naming the paths that failed, before anything is written.
\<close>

definition UserModel_validate :: "insert_user \<Rightarrow> string list" where
  "UserModel_validate d =
     (if checkRequired (iu_username d) then [] else [''username''])
     @ (if checkRequired (iu_password d) then [] else [''password''])
     @ (if checkRequired (iu_email d) then [] else [''email''])
     @ (if checkRequired (iu_userType d) then [] else [''userType''])
     @ (if checkRequired (iu_fullName d) then [] else [''fullName''])"

definition UserModel_new :: "nat \<Rightarrow> objectid \<Rightarrow> insert_user \<Rightarrow> user_doc" where
  "UserModel_new now oid d =
     \<lparr>u_id = oid,
      u_username = valueOf (iu_username d),
      u_password = valueOf (iu_password d),
      u_email = valueOf (iu_email d),
      u_userType = valueOf (iu_userType d),
      u_fullName = valueOf (iu_fullName d),
      u_company = iu_company d,
      u_title = iu_title d,
      u_bio = iu_bio d,
      u_location = iu_location d,
      u_profileImage = iu_profileImage d,
      u_isVerified = False,
      u_createdAt = now\<rparr>"

text \<open>
  \<open>username\<close> and \<open>email\<close> are declared \<open>unique: true\<close>: the collection has a unique index on
  each, and the insert of a document that repeats either value is rejected (E11000).
\<close>

definition UserModel_save :: "nat \<Rightarrow> store \<Rightarrow> insert_user \<Rightarrow> (error + user_doc) \<times> store" where
  "UserModel_save now st d =
     (if UserModel_validate d \<noteq> [] then (Inl (ValidationError (UserModel_validate d)), st)
      else let doc = UserModel_new now (newObjectId st) d in
        if list_ex (\<lambda>u. u_username u = u_username doc \<or> u_email u = u_email doc) (users st)
        then (Inl DuplicateKey, st)
        else (Inr doc, st\<lparr>users := users st @ [doc]\<rparr>))"

text \<open>The object \<open>projectData\<close> that \<open>createProject\<close> builds and hands to \<open>ProjectModel\<close>.\<close>

record projectData =
  pd_clientId :: objectid
  pd_title :: "jsstring option"
  pd_description :: "jsstring option"
  pd_requirements :: "jsstring option"
  pd_budget :: jsstring
  pd_timeframe :: jsstring
  pd_additionalDetails :: "jsstring option"
  pd_status :: jsstring
  pd_skills :: "jsstring list"

text \<open>
  \<open>projectData\<close> always carries \<open>budget\<close>, \<open>timeframe\<close>, \<open>status\<close> and \<open>skills\<close>, so of the
  schema's defaults only \<open>createdAt: Date.now\<close> applies.
\<close>

definition ProjectModel_new :: "nat \<Rightarrow> objectid \<Rightarrow> projectData \<Rightarrow> project_doc" where
  "ProjectModel_new now oid pd =
     \<lparr>p_id = oid,
      p_clientId = Some (pd_clientId pd),
      p_title = pd_title pd,
      p_description = pd_description pd,
      p_requirements = pd_requirements pd,
      p_budget = Some (pd_budget pd),
      p_timeframe = Some (pd_timeframe pd),
      p_additionalDetails = pd_additionalDetails pd,
      p_status = Some (pd_status pd),
      p_createdAt = Some now,
      p_skills = pd_skills pd\<rparr>"

definition ProjectModel_validate :: "project_doc \<Rightarrow> string list" where
  "ProjectModel_validate doc =
     (if p_clientId doc \<noteq> None then [] else [''clientId''])
     @ (if checkRequired (p_title doc) then [] else [''title''])
     @ (if checkRequired (p_description doc) then [] else [''description''])
     @ (if checkRequired (p_requirements doc) then [] else [''requirements''])
     @ (if checkRequired (p_timeframe doc) then [] else [''timeframe''])"

definition ProjectModel_save :: "store \<Rightarrow> project_doc \<Rightarrow> (error + project_doc) \<times> store" where
  "ProjectModel_save st doc =
     (if ProjectModel_validate doc \<noteq> [] then (Inl (ValidationError (ProjectModel_validate doc)), st)
      else (Inr doc, st\<lparr>projects := projects st @ [doc]\<rparr>))"

definition ReviewModel_validate :: "insert_review \<Rightarrow> string list" where
  "ReviewModel_validate d =
     (if ir_projectId d \<noteq> None then [] else [''projectId''])
     @ (if ir_clientId d \<noteq> None then [] else [''clientId''])
     @ (if ir_hackerId d \<noteq> None then [] else [''hackerId''])
     @ (if ir_rating d \<noteq> None then [] else [''rating''])"

definition numberOf :: "int option \<Rightarrow> int" where
  "numberOf v = (case v of None \<Rightarrow> 0 | Some n \<Rightarrow> n)"

text \<open>The schema has no \<open>featured\<close> path, so no saved Review carries the attribute.\<close>

definition ReviewModel_new :: "nat \<Rightarrow> objectid \<Rightarrow> insert_review \<Rightarrow> review_doc" where
  "ReviewModel_new now oid d =
     \<lparr>r_id = oid,
      r_projectId = numberOf (ir_projectId d),
      r_clientId = numberOf (ir_clientId d),
      r_hackerId = numberOf (ir_hackerId d),
      r_rating = numberOf (ir_rating d),
      r_comment = ir_comment d,
      r_createdAt = now,
      r_featured = None\<rparr>"

definition ReviewModel_save :: "nat \<Rightarrow> store \<Rightarrow> insert_review \<Rightarrow> (error + review_doc) \<times> store" where
  "ReviewModel_save now st d =
     (if ReviewModel_validate d \<noteq> [] then (Inl (ValidationError (ReviewModel_validate d)), st)
      else let doc = ReviewModel_new now (newObjectId st) d in
        (Inr doc, st\<lparr>reviews := reviews st @ [doc]\<rparr>))"

definition ApplicationModel_validate :: "insert_application \<Rightarrow> string list" where
  "ApplicationModel_validate d =
     (if ia_projectId d \<noteq> None then [] else [''projectId''])
     @ (if ia_hackerId d \<noteq> None then [] else [''hackerId''])
     @ (if checkRequired (ia_proposal d) then [] else [''proposal''])
     @ (if checkRequired (ia_estimatedTime d) then [] else [''estimatedTime''])
     @ (if checkRequired (ia_priceQuote d) then [] else [''priceQuote''])"

definition ApplicationModel_new :: "nat \<Rightarrow> objectid \<Rightarrow> insert_application \<Rightarrow> application_doc" where
  "ApplicationModel_new now oid d =
     \<lparr>a_id = oid,
      a_projectId = numberOf (ia_projectId d),
      a_hackerId = numberOf (ia_hackerId d),
      a_proposal = valueOf (ia_proposal d),
      a_estimatedTime = valueOf (ia_estimatedTime d),
      a_priceQuote = valueOf (ia_priceQuote d),
      a_status = (case ia_status d of None \<Rightarrow> lit ''pending'' | Some s \<Rightarrow> s),
      a_createdAt = now\<rparr>"

definition ApplicationModel_save ::
  "nat \<Rightarrow> store \<Rightarrow> insert_application \<Rightarrow> (error + application_doc) \<times> store" where
  "ApplicationModel_save now st d =
     (if ApplicationModel_validate d \<noteq> []
      then (Inl (ValidationError (ApplicationModel_validate d)), st)
      else let doc = ApplicationModel_new now (newObjectId st) d in
        (Inr doc, st\<lparr>applications := applications st @ [doc]\<rparr>))"

definition ContactMessageModel_validate :: "insert_contact \<Rightarrow> string list" where
  "ContactMessageModel_validate d =
     (if checkRequired (im_name d) then [] else [''name''])
     @ (if checkRequired (im_email d) then [] else [''email''])
     @ (if checkRequired (im_subject d) then [] else [''subject''])
     @ (if checkRequired (im_message d) then [] else [''message''])
     @ (if checkRequired (im_inquiryType d) then [] else [''inquiryType''])"

definition ContactMessageModel_new :: "nat \<Rightarrow> objectid \<Rightarrow> insert_contact \<Rightarrow> contact_doc" where
  "ContactMessageModel_new now oid d =
     \<lparr>m_id = oid,
      m_name = valueOf (im_name d),
      m_email = valueOf (im_email d),
      m_subject = valueOf (im_subject d),
      m_message = valueOf (im_message d),
      m_inquiryType = valueOf (im_inquiryType d),
      m_createdAt = now,
      m_isRead = False\<rparr>"

definition ContactMessageModel_save ::
  "nat \<Rightarrow> store \<Rightarrow> insert_contact \<Rightarrow> (error + contact_doc) \<times> store" where
  "ContactMessageModel_save now st d =
     (if ContactMessageModel_validate d \<noteq> []
      then (Inl (ValidationError (ContactMessageModel_validate d)), st)
      else let doc = ContactMessageModel_new now (newObjectId st) d in
        (Inr doc, st\<lparr>contactMessages := contactMessages st @ [doc]\<rparr>))"

section \<open>The connection's bootstrap\<close>

text \<open>
  Once connected: \<open>findOne({userType: 'admin'})\<close>, and the default administrator is
  created when there is none.
\<close>

definition adminUser :: insert_user where
  "adminUser = \<lparr>iu_username = Some (lit ''admin''), iu_password = Some (lit ''admin123''),
     iu_email = Some (lit ''admin@example.com''), iu_userType = Some (lit ''admin''),
     iu_fullName = Some (lit ''Admin User''), iu_company = None, iu_title = None,
     iu_bio = None, iu_location = None, iu_profileImage = None\<rparr>"

definition connect :: "nat \<Rightarrow> store \<Rightarrow> store" where
  "connect now st =
     (if list_ex (\<lambda>u. u_userType u = lit ''admin'') (users st) then st
      else snd (UserModel_save now st adminUser))"

section \<open>The Storage class\<close>

text \<open>
  Every method takes the store and returns its result, or the error it raises, with the
  store it leaves. Methods that read the clock take the current time \<open>now\<close>.
\<close>

subsection \<open>Users\<close>

definition createUser :: "nat \<Rightarrow> store \<Rightarrow> insert_user \<Rightarrow> (error + user_doc) \<times> store" where
  "createUser now st data = UserModel_save now st data"

definition UserModel_findById :: "store \<Rightarrow> jsstring \<Rightarrow> error + user_doc option" where
  "UserModel_findById st s =
     (case castObjectId s of
        Inl e \<Rightarrow> Inl e
      | Inr oid \<Rightarrow> Inr (find (\<lambda>u. u_id u = oid) (users st)))"

text \<open>The \<open>catch\<close> of \<open>getUser\<close> logs the error and returns \<open>null\<close>.\<close>

definition getUser :: "store \<Rightarrow> jsstring \<Rightarrow> (error + user_doc option) \<times> store" where
  "getUser st id' =
     (case UserModel_findById st id' of
        Inl e \<Rightarrow> (Inr None, st)
      | Inr r \<Rightarrow> (Inr r, st))"

text \<open>An update sets the fields it supplies and leaves the others.\<close>

definition applyUserUpdate :: "insert_user \<Rightarrow> user_doc \<Rightarrow> user_doc" where
  "applyUserUpdate d u =
     u\<lparr>u_username := (case iu_username d of None \<Rightarrow> u_username u | Some v \<Rightarrow> v),
       u_password := (case iu_password d of None \<Rightarrow> u_password u | Some v \<Rightarrow> v),
       u_email := (case iu_email d of None \<Rightarrow> u_email u | Some v \<Rightarrow> v),
       u_userType := (case iu_userType d of None \<Rightarrow> u_userType u | Some v \<Rightarrow> v),
       u_fullName := (case iu_fullName d of None \<Rightarrow> u_fullName u | Some v \<Rightarrow> v),
       u_company := (case iu_company d of None \<Rightarrow> u_company u | Some v \<Rightarrow> Some v),
       u_title := (case iu_title d of None \<Rightarrow> u_title u | Some v \<Rightarrow> Some v),
       u_bio := (case iu_bio d of None \<Rightarrow> u_bio u | Some v \<Rightarrow> Some v),
       u_location := (case iu_location d of None \<Rightarrow> u_location u | Some v \<Rightarrow> Some v),
       u_profileImage := (case iu_profileImage d of None \<Rightarrow> u_profileImage u | Some v \<Rightarrow> Some v)\<rparr>"

fun replaceFirst :: "('a \<Rightarrow> bool) \<Rightarrow> 'a \<Rightarrow> 'a list \<Rightarrow> 'a list" where
  "replaceFirst P y [] = []"
| "replaceFirst P y (x # xs) = (if P x then y # xs else x # replaceFirst P y xs)"

fun removeFirst :: "('a \<Rightarrow> bool) \<Rightarrow> 'a list \<Rightarrow> 'a list" where
  "removeFirst P [] = []"
| "removeFirst P (x # xs) = (if P x then xs else x # removeFirst P xs)"

text \<open>
  \<open>findByIdAndUpdate(id, data, {new: true})\<close>: the document with that \<open>_id\<close> is updated and
  returned as updated, \<open>null\<close> when there is none. Moving \<open>username\<close> or \<open>email\<close> onto a
  value another user holds violates the unique index.
\<close>

definition updateUser :: "store \<Rightarrow> jsstring \<Rightarrow> insert_user \<Rightarrow> (error + user_doc option) \<times> store" where
  "updateUser st id' data =
     (case castObjectId id' of
        Inl e \<Rightarrow> (Inl e, st)
      | Inr oid \<Rightarrow>
         (case find (\<lambda>u. u_id u = oid) (users st) of
            None \<Rightarrow> (Inr None, st)
          | Some u \<Rightarrow>
             let u' = applyUserUpdate data u;
                 others = removeFirst (\<lambda>v. u_id v = oid) (users st)
             in if (u_username u' \<noteq> u_username u \<and> list_ex (\<lambda>v. u_username v = u_username u') others)
                   \<or> (u_email u' \<noteq> u_email u \<and> list_ex (\<lambda>v. u_email v = u_email u') others)
                then (Inl DuplicateKey, st)
                else (Inr (Some u'),
                      st\<lparr>users := replaceFirst (\<lambda>v. u_id v = oid) u' (users st)\<rparr>)))"

subsection \<open>Projects\<close>

definition titleTooShort :: jsstring where
  "titleTooShort = lit ''Project title must be at least 10 characters long''"

definition descriptionTooShort :: jsstring where
  "descriptionTooShort = lit ''Project description must be at least 50 characters long''"

definition requirementsTooShort :: jsstring where
  "requirementsTooShort = lit ''Project requirements must be at least 20 characters long''"

text \<open>
  \<open>createProject\<close>: the object literal \<open>projectData\<close> is evaluated field by field,
  \<open>clientId\<close> first, so \<open>data.clientId.toString()\<close> and the ObjectId constructor run before
  anything else (\<open>projectDataOf\<close> is the literal once \<open>clientId\<close> is an ObjectId); then the
  three length checks in their order; then the save. The \<open>catch\<close> logs and rethrows the
  same error.
\<close>

definition projectDataOf :: "objectid \<Rightarrow> insert_project \<Rightarrow> projectData" where
  "projectDataOf oid data =
     \<lparr>pd_clientId = oid,
      pd_title = map_option trim (ip_title data),
      pd_description = map_option trim (ip_description data),
      pd_requirements = map_option trim (ip_requirements data),
      pd_budget = orElse (ip_budget data) (lit ''$1,000 - $5,000''),
      pd_timeframe = orElse (ip_timeframe data) (lit ''2-4 weeks''),
      pd_additionalDetails = map_option trim (ip_additionalDetails data),
      pd_status = orElse (ip_status data) (lit ''open''),
      pd_skills = (case ip_skills data of Some xs \<Rightarrow> xs | None \<Rightarrow> [])\<rparr>"

definition createProject :: "nat \<Rightarrow> store \<Rightarrow> insert_project \<Rightarrow> (error + project_doc) \<times> store" where
  "createProject now st data =
     (case ip_clientId data of
        None \<Rightarrow> (Inl TypeError, st)
      | Some c \<Rightarrow>
         (case ObjectId c of
            Inl e \<Rightarrow> (Inl e, st)
          | Inr oid \<Rightarrow>
             let pd = projectDataOf oid data
             in if \<not> truthy (pd_title pd) \<or> length (valueOf (pd_title pd)) < 10
                then (Inl (Error titleTooShort), st)
                else if \<not> truthy (pd_description pd) \<or> length (valueOf (pd_description pd)) < 50
                then (Inl (Error descriptionTooShort), st)
                else if \<not> truthy (pd_requirements pd) \<or> length (valueOf (pd_requirements pd)) < 20
                then (Inl (Error requirementsTooShort), st)
                else ProjectModel_save st (ProjectModel_new now (newObjectId st) pd)))"

text \<open>
  The query of \<open>listProjects\<close>: \<open>find\<close> with the status filter when a status is given,
  \<open>populate\<close> of \<open>clientId\<close> (the owning User, \<open>null\<close> when it does not resolve), and
  \<open>sort({createdAt: -1})\<close>, in which a document without a creation time compares below
  every date and so comes last. The order among equal creation times is the store's
  choice; the sort here fixes one.
\<close>

definition populate :: "store \<Rightarrow> project_doc \<Rightarrow> project_doc \<times> user_doc option" where
  "populate st p =
     (p, case p_clientId p of None \<Rightarrow> None | Some c \<Rightarrow> find (\<lambda>u. u_id u = c) (users st))"

definition ProjectModel_find_populate_sort ::
  "store \<Rightarrow> jsstring option \<Rightarrow> error + (project_doc \<times> user_doc option) list" where
  "ProjectModel_find_populate_sort st status =
     Inr (map (populate st)
       (rev (sort_key p_createdAt
         (if truthy status then filter (\<lambda>p. p_status p = status) (projects st)
          else projects st))))"

text \<open>
  The normalized item: the document's own fields (\<open>...project.toObject()\<close>) with the
  listed ones overridden, and \<open>clientName\<close> added. A creation time that the stored
  document lacks is read as the current time (\<open>project.createdAt || new Date()\<close>).
\<close>

record project_view =
  v_id :: objectid
  v_clientId :: "objectid option"
  v_title :: "jsstring option"
  v_description :: "jsstring option"
  v_requirements :: "jsstring option"
  v_budget :: "jsstring option"
  v_timeframe :: "jsstring option"
  v_additionalDetails :: "jsstring option"
  v_status :: "jsstring option"
  v_createdAt :: "nat option"
  v_skills :: "jsstring list"
  v_clientName :: "jsstring option"

definition validProject :: "nat \<Rightarrow> project_doc \<times> user_doc option \<Rightarrow> project_view" where
  "validProject now pc =
     (case pc of (project, client) \<Rightarrow>
       \<lparr>v_id = p_id project,
        v_clientId = map_option u_id client,
        v_title = Some (orElse (p_title project) (lit ''Untitled'')),
        v_description = Some (orElse (p_description project) (lit ''No description provided'')),
        v_requirements = Some (orElse (p_requirements project) []),
        v_budget = Some (orElse (p_budget project) (lit ''$1,000 - $5,000'')),
        v_timeframe = Some (orElse (p_timeframe project) (lit ''2-4 weeks'')),
        v_additionalDetails = p_additionalDetails project,
        v_status = Some (orElse (p_status project) (lit ''open'')),
        v_createdAt = Some (case p_createdAt project of Some t \<Rightarrow> t | None \<Rightarrow> now),
        v_skills = p_skills project,
        v_clientName = Some (orElse (map_option u_fullName client) (lit ''Unknown Client''))\<rparr>)"

text \<open>
  The body of \<open>listProjects\<close> as a function of what the awaited query gives: its rows, or
  the error it is rejected with. The \<open>catch\<close> logs the error and returns \<open>[]\<close>.
\<close>

definition listProjects_body ::
  "nat \<Rightarrow> error + (project_doc \<times> user_doc option) list \<Rightarrow> error + project_view list" where
  "listProjects_body now fetched =
     (case fetched of
        Inl e \<Rightarrow> Inr []
      | Inr rows \<Rightarrow> Inr (map (validProject now) rows))"

definition listProjects ::
  "nat \<Rightarrow> store \<Rightarrow> jsstring option \<Rightarrow> (error + project_view list) \<times> store" where
  "listProjects now st status =
     (listProjects_body now (ProjectModel_find_populate_sort st status), st)"

text \<open>
  \<open>updateProject\<close> is \<open>findByIdAndUpdate\<close> as well; a \<open>clientId\<close> in the update is cast to an
  ObjectId like the \<open>_id\<close> of the filter. \<open>deleteProject\<close> is \<open>findByIdAndDelete\<close>.
\<close>

definition applyProjectUpdate ::
  "insert_project \<Rightarrow> objectid option \<Rightarrow> project_doc \<Rightarrow> project_doc" where
  "applyProjectUpdate d client p =
     p\<lparr>p_clientId := (case client of None \<Rightarrow> p_clientId p | Some c \<Rightarrow> Some c),
       p_title := (case ip_title d of None \<Rightarrow> p_title p | Some v \<Rightarrow> Some v),
       p_description := (case ip_description d of None \<Rightarrow> p_description p | Some v \<Rightarrow> Some v),
       p_requirements := (case ip_requirements d of None \<Rightarrow> p_requirements p | Some v \<Rightarrow> Some v),
       p_budget := (case ip_budget d of None \<Rightarrow> p_budget p | Some v \<Rightarrow> Some v),
       p_timeframe := (case ip_timeframe d of None \<Rightarrow> p_timeframe p | Some v \<Rightarrow> Some v),
       p_additionalDetails :=
         (case ip_additionalDetails d of None \<Rightarrow> p_additionalDetails p | Some v \<Rightarrow> Some v),
       p_status := (case ip_status d of None \<Rightarrow> p_status p | Some v \<Rightarrow> Some v),
       p_skills := (case ip_skills d of None \<Rightarrow> p_skills p | Some v \<Rightarrow> v)\<rparr>"

definition castUpdateClientId :: "jsstring option \<Rightarrow> error + objectid option" where
  "castUpdateClientId c =
     (case c of
        None \<Rightarrow> Inr None
      | Some s \<Rightarrow> (case castObjectId s of Inl e \<Rightarrow> Inl e | Inr oid \<Rightarrow> Inr (Some oid)))"

definition updateProject ::
  "store \<Rightarrow> jsstring \<Rightarrow> insert_project \<Rightarrow> (error + project_doc option) \<times> store" where
  "updateProject st id' data =
     (case castObjectId id' of
        Inl e \<Rightarrow> (Inl e, st)
      | Inr oid \<Rightarrow>
         (case castUpdateClientId (ip_clientId data) of
            Inl e \<Rightarrow> (Inl e, st)
          | Inr client \<Rightarrow>
             (case find (\<lambda>p. p_id p = oid) (projects st) of
                None \<Rightarrow> (Inr None, st)
              | Some p \<Rightarrow>
                 let p' = applyProjectUpdate data client p
                 in (Inr (Some p'),
                     st\<lparr>projects := replaceFirst (\<lambda>q. p_id q = oid) p' (projects st)\<rparr>))))"

definition deleteProject :: "store \<Rightarrow> jsstring \<Rightarrow> (error + project_doc option) \<times> store" where
  "deleteProject st id' =
     (case castObjectId id' of
        Inl e \<Rightarrow> (Inl e, st)
      | Inr oid \<Rightarrow>
         (case find (\<lambda>p. p_id p = oid) (projects st) of
            None \<Rightarrow> (Inr None, st)
          | Some p \<Rightarrow>
             (Inr (Some p), st\<lparr>projects := removeFirst (\<lambda>q. p_id q = oid) (projects st)\<rparr>)))"

text \<open>
  \<open>deleteProjects\<close>: \<open>deleteMany({_id: {$in: ids}})\<close>. Every element of \<open>ids\<close> is cast first,
  and one that cannot be cast rejects the whole call; otherwise the documents whose
  \<open>_id\<close> is among them are removed and \<open>deletedCount\<close> is how many there were.
\<close>

definition deleteProjects :: "store \<Rightarrow> jsstring list \<Rightarrow> (error + nat) \<times> store" where
  "deleteProjects st ids =
     (case castObjectIds ids of
        Inl e \<Rightarrow> (Inl e, st)
      | Inr oids \<Rightarrow>
         (Inr (length (filter (\<lambda>p. p_id p \<in> set oids) (projects st))),
          st\<lparr>projects := filter (\<lambda>p. p_id p \<notin> set oids) (projects st)\<rparr>))"

subsection \<open>Reviews, applications and contact messages\<close>

definition createReview :: "nat \<Rightarrow> store \<Rightarrow> insert_review \<Rightarrow> (error + review_doc) \<times> store" where
  "createReview now st data = ReviewModel_save now st data"

definition createApplication ::
  "nat \<Rightarrow> store \<Rightarrow> insert_application \<Rightarrow> (error + application_doc) \<times> store" where
  "createApplication now st data = ApplicationModel_save now st data"

definition createContactMessage ::
  "nat \<Rightarrow> store \<Rightarrow> insert_contact \<Rightarrow> (error + contact_doc) \<times> store" where
  "createContactMessage now st data = ContactMessageModel_save now st data"

text \<open>
  \<open>listTestimonials\<close>: \<open>ReviewModel.find({featured: true})\<close>. The filter reaches the store
  as written, although the schema has no such path (\<open>strictQuery\<close> is off, the default of
  Mongoose), and matches the documents that carry \<open>featured: true\<close>.
\<close>

definition listTestimonials :: "store \<Rightarrow> (error + review_doc list) \<times> store" where
  "listTestimonials st = (Inr (filter (\<lambda>r. r_featured r = Some True) (reviews st)), st)"

section \<open>Reachable stores\<close>

text \<open>
  The stores this layer can produce: from the empty database, by the bootstrap of the
  connection and by the methods that write. (\<open>addProjectSkill\<close> persists nothing.)
\<close>

inductive reachable :: "store \<Rightarrow> bool" where
  reachable_empty: "reachable emptyStore"
| reachable_connect: "reachable st \<Longrightarrow> reachable (connect now st)"
| reachable_createUser: "reachable st \<Longrightarrow> reachable (snd (createUser now st udata))"
| reachable_updateUser: "reachable st \<Longrightarrow> reachable (snd (updateUser st id' udata))"
| reachable_createProject: "reachable st \<Longrightarrow> reachable (snd (createProject now st pdata))"
| reachable_updateProject: "reachable st \<Longrightarrow> reachable (snd (updateProject st id' pdata))"
| reachable_deleteProject: "reachable st \<Longrightarrow> reachable (snd (deleteProject st id'))"
| reachable_deleteProjects: "reachable st \<Longrightarrow> reachable (snd (deleteProjects st ids))"
| reachable_createReview: "reachable st \<Longrightarrow> reachable (snd (createReview now st rdata))"
| reachable_createApplication:
    "reachable st \<Longrightarrow> reachable (snd (createApplication now st adata))"
| reachable_createContactMessage:
    "reachable st \<Longrightarrow> reachable (snd (createContactMessage now st mdata))"

section \<open>Example inputs\<close>

text \<open>
  A project input that passes every check, the scenario input of the specification
  (whose \<open>clientId\<close> is \<open>"U1"\<close>), and inputs that fail several checks.
\<close>

definition validProjectInput :: insert_project where
  "validProjectInput = \<lparr>ip_clientId = Some (lit ''507f1f77bcf86cd799439011''),
     ip_title = Some (lit ''Need a landing page built''),
     ip_description = Some (lit ''  A responsive landing page for our new product launch, with signup form.  ''),
     ip_requirements = Some (lit ''React, Tailwind, deployed on Vercel''),
     ip_budget = None, ip_timeframe = None, ip_additionalDetails = None, ip_status = None,
     ip_skills = Some [lit ''react'']\<rparr>"

definition scenarioProject :: insert_project where
  "scenarioProject = validProjectInput\<lparr>ip_clientId := Some (lit ''U1'')\<rparr>"

definition shortTitleNoClient :: insert_project where
  "shortTitleNoClient = validProjectInput\<lparr>ip_clientId := None, ip_title := Some (lit ''short'')\<rparr>"

definition allTooShort :: insert_project where
  "allTooShort = validProjectInput\<lparr>ip_title := Some (lit ''short''),
     ip_description := Some (lit ''  brief  ''), ip_requirements := None\<rparr>"

definition briefNoRequirements :: insert_project where
  "briefNoRequirements = validProjectInput\<lparr>ip_description := Some (lit ''  brief  ''),
     ip_requirements := None\<rparr>"

definition noRequirements :: insert_project where
  "noRequirements = validProjectInput\<lparr>ip_requirements := None\<rparr>"

text \<open>
  The store after the bootstrap of the connection: the default administrator alone, whose
  \<open>_id\<close> is the first ObjectId the driver gives out.
\<close>

definition adminStore :: store where
  "adminStore = connect 0 emptyStore"

definition adminId :: jsstring where
  "adminId = lit ''000000000000000000000001''"

definition adminDoc :: user_doc where
  "adminDoc = UserModel_new 0 1 adminUser"

definition adminEmptyPassword :: insert_user where
  "adminEmptyPassword = adminUser\<lparr>iu_password := Some []\<rparr>"

text \<open>
  Stored projects with and without a creation time, stores that hold them beside the
  administrator, identifiers as a caller writes them, and a store with one Review.
\<close>

definition datedProject :: project_doc where
  "datedProject = \<lparr>p_id = 2, p_clientId = Some 1,
     p_title = Some (lit ''Need a landing page built''), p_description = None,
     p_requirements = Some [], p_budget = None, p_timeframe = Some (lit ''1 week''),
     p_additionalDetails = None, p_status = Some (lit ''open''), p_createdAt = Some 5,
     p_skills = [lit ''react'']\<rparr>"

definition undatedProject :: project_doc where
  "undatedProject = datedProject\<lparr>p_id := 3, p_clientId := Some 8, p_createdAt := None\<rparr>"

definition laterProject :: project_doc where
  "laterProject = datedProject\<lparr>p_id := 4, p_createdAt := Some 9\<rparr>"

definition datedStore :: store where
  "datedStore = adminStore\<lparr>projects := [datedProject, laterProject]\<rparr>"

definition undatedStore :: store where
  "undatedStore = adminStore\<lparr>projects := [undatedProject, datedProject]\<rparr>"


definition unknownId :: jsstring where
  "unknownId = lit ''00000000000000000000000F''"

definition sampleReview :: insert_review where
  "sampleReview = \<lparr>ir_projectId = Some 1, ir_clientId = Some 2, ir_hackerId = Some 3,
     ir_rating = Some 5, ir_comment = Some (lit ''Great work'')\<rparr>"

definition reviewedStore :: store where
  "reviewedStore = snd (createReview 3 (connect 0 emptyStore) sampleReview)"

section \<open>Properties of createProject\<close>

lemma orElse_nonempty: "d \<noteq> [] \<Longrightarrow> orElse v d \<noteq> []"
  by (simp add: orElse_def split: option.splits)

lemma ObjectId_error: "ObjectId c = Inl e \<Longrightarrow> e = BSONError"
  by (simp add: ObjectId_def split: if_splits)

lemma check_iff_pos:
  "0 < n \<Longrightarrow> (\<not> truthy (map_option trim v) \<or> length (valueOf (map_option trim v)) < n) \<longleftrightarrow>
   \<not> (\<exists>t. v = Some t \<and> n \<le> length (trim t))"
  by (cases v) (auto simp: truthy_def valueOf_def)

lemma ProjectModel_save_ok:
  assumes "checkRequired (pd_title pd)" "checkRequired (pd_description pd)"
    "checkRequired (pd_requirements pd)" "pd_timeframe pd \<noteq> []"
  shows "ProjectModel_save st (ProjectModel_new now oid pd)
         = (Inr (ProjectModel_new now oid pd),
            st\<lparr>projects := projects st @ [ProjectModel_new now oid pd]\<rparr>)"
proof -
  have "ProjectModel_validate (ProjectModel_new now oid pd) = []"
    using assms by (simp add: ProjectModel_validate_def ProjectModel_new_def checkRequired_def)
  then show ?thesis by (simp add: ProjectModel_save_def)
qed

lemma createProject_unfold:
  assumes "ip_clientId data = Some c" "ObjectId c = Inr oid"
  shows "createProject now st data =
    (if \<not> truthy (map_option trim (ip_title data)) \<or> length (valueOf (map_option trim (ip_title data))) < 10
     then (Inl (Error titleTooShort), st)
     else if \<not> truthy (map_option trim (ip_description data)) \<or> length (valueOf (map_option trim (ip_description data))) < 50
     then (Inl (Error descriptionTooShort), st)
     else if \<not> truthy (map_option trim (ip_requirements data)) \<or> length (valueOf (map_option trim (ip_requirements data))) < 20
     then (Inl (Error requirementsTooShort), st)
     else ProjectModel_save st (ProjectModel_new now (newObjectId st) (projectDataOf oid data)))"
  unfolding createProject_def using assms
  by (simp add: Let_def projectDataOf_def)

lemma createProject_cases:
  assumes "ip_clientId data = Some c" "ObjectId c = Inr oid"
  shows "createProject now st data =
    (if \<not> (\<exists>t. ip_title data = Some t \<and> 10 \<le> length (trim t))
     then (Inl (Error titleTooShort), st)
     else if \<not> (\<exists>d. ip_description data = Some d \<and> 50 \<le> length (trim d))
     then (Inl (Error descriptionTooShort), st)
     else if \<not> (\<exists>r. ip_requirements data = Some r \<and> 20 \<le> length (trim r))
     then (Inl (Error requirementsTooShort), st)
     else (Inr (ProjectModel_new now (newObjectId st) (projectDataOf oid data)),
           st\<lparr>projects := projects st
              @ [ProjectModel_new now (newObjectId st) (projectDataOf oid data)]\<rparr>))"
proof -
  have c1: "(\<not> truthy (map_option trim (ip_title data))
             \<or> length (valueOf (map_option trim (ip_title data))) < 10)
            = (\<not> (\<exists>t. ip_title data = Some t \<and> 10 \<le> length (trim t)))"
    by (rule check_iff_pos) simp
  have c2: "(\<not> truthy (map_option trim (ip_description data))
             \<or> length (valueOf (map_option trim (ip_description data))) < 50)
            = (\<not> (\<exists>d. ip_description data = Some d \<and> 50 \<le> length (trim d)))"
    by (rule check_iff_pos) simp
  have c3: "(\<not> truthy (map_option trim (ip_requirements data))
             \<or> length (valueOf (map_option trim (ip_requirements data))) < 20)
            = (\<not> (\<exists>r. ip_requirements data = Some r \<and> 20 \<le> length (trim r)))"
    by (rule check_iff_pos) simp
  have save: "ProjectModel_save st (ProjectModel_new now (newObjectId st) (projectDataOf oid data))
      = (Inr (ProjectModel_new now (newObjectId st) (projectDataOf oid data)),
         st\<lparr>projects := projects st
            @ [ProjectModel_new now (newObjectId st) (projectDataOf oid data)]\<rparr>)"
    if "\<exists>t. ip_title data = Some t \<and> 10 \<le> length (trim t)"
      and "\<exists>d. ip_description data = Some d \<and> 50 \<le> length (trim d)"
      and "\<exists>r. ip_requirements data = Some r \<and> 20 \<le> length (trim r)"
  proof (rule ProjectModel_save_ok)
    from that(1) show "checkRequired (pd_title (projectDataOf oid data))"
      by (auto simp: projectDataOf_def checkRequired_def)
    from that(2) show "checkRequired (pd_description (projectDataOf oid data))"
      by (auto simp: projectDataOf_def checkRequired_def)
    from that(3) show "checkRequired (pd_requirements (projectDataOf oid data))"
      by (auto simp: projectDataOf_def checkRequired_def)
    show "pd_timeframe (projectDataOf oid data) \<noteq> []"
      by (simp add: projectDataOf_def orElse_nonempty lit_def)
  qed
  show ?thesis
    unfolding createProject_unfold [OF assms] c1 c2 c3
    using save by (simp del: not_ex)
qed

lemma validProjectInput_clientId:
  "ObjectId (lit ''507f1f77bcf86cd799439011'') = Inr 24912482966938930280208240657"
  by (simp add: ObjectId_def lit_def hexDigit_def)

lemma scenario_clientId: "ObjectId (lit ''U1'') = Inl BSONError"
  by (simp add: ObjectId_def lit_def)

lemma validProjectInput_lengths:
  "length (trim (lit ''Need a landing page built'')) = 25"
  "length (trim (lit ''  A responsive landing page for our new product launch, with signup form.  '')) = 71"
  "length (trim (lit ''React, Tailwind, deployed on Vercel'')) = 35"
  "length (trim (lit ''short'')) = 5"
  by (simp_all add: trim_def lit_def isWhiteSpace_def)

text \<open>
  Claim C1, as amended. \<open>createProject\<close> succeeds if and only if \<open>clientId\<close> is present and
  is the text of an ObjectId, the trimmed title has at least 10 code units, the trimmed
  description at least 50 and the trimmed requirements at least 20. When it fails, the
  store is left as it was, and the error is the one of what failed: the \<open>TypeError\<close> of an
  absent \<open>clientId\<close>, the ObjectId constructor's error, or the message of a length check
  that does not hold. When it succeeds, the created document is the one document added.
\<close>

theorem createProject_succeeds_iff:
  "((\<exists>doc st'. createProject now st data = (Inr doc, st')) \<longleftrightarrow>
      (\<exists>c oid. ip_clientId data = Some c \<and> ObjectId c = Inr oid) \<and>
      (\<exists>t. ip_title data = Some t \<and> 10 \<le> length (trim t)) \<and>
      (\<exists>d. ip_description data = Some d \<and> 50 \<le> length (trim d)) \<and>
      (\<exists>r. ip_requirements data = Some r \<and> 20 \<le> length (trim r)))
   \<and> (\<forall>e st'. createProject now st data = (Inl e, st') \<longrightarrow>
        st' = st \<and>
        (e = TypeError \<and> ip_clientId data = None
         \<or> e = BSONError \<and> (\<exists>c. ip_clientId data = Some c \<and> ObjectId c = Inl BSONError)
         \<or> e = Error titleTooShort
             \<and> \<not> (\<exists>t. ip_title data = Some t \<and> 10 \<le> length (trim t))
         \<or> e = Error descriptionTooShort
             \<and> \<not> (\<exists>d. ip_description data = Some d \<and> 50 \<le> length (trim d))
         \<or> e = Error requirementsTooShort
             \<and> \<not> (\<exists>r. ip_requirements data = Some r \<and> 20 \<le> length (trim r))))
   \<and> (\<forall>doc st'. createProject now st data = (Inr doc, st') \<longrightarrow>
        st' = st\<lparr>projects := projects st @ [doc]\<rparr>)"
  (is "(?S \<longleftrightarrow> ?C \<and> ?T \<and> ?D \<and> ?R) \<and> ?F \<and> ?I")
proof (cases "ip_clientId data")
  case None
  then have cp: "createProject now st data = (Inl TypeError, st)"
    by (simp add: createProject_def)
  have "\<not> ?S" "\<not> ?C" by (simp_all add: cp None)
  moreover have ?F by (simp add: cp None)
  moreover have ?I by (simp add: cp)
  ultimately show ?thesis by blast
next
  case (Some c)
  show ?thesis
  proof (cases "ObjectId c")
    case (Inl e)
    then have e: "ObjectId c = Inl BSONError" by (simp add: ObjectId_error)
    from Some e have cp: "createProject now st data = (Inl BSONError, st)"
      by (simp add: createProject_def)
    have "\<not> ?S" "\<not> ?C" by (simp_all add: cp Some e)
    moreover have ?F by (simp add: cp Some e)
    moreover have ?I by (simp add: cp)
    ultimately show ?thesis by blast
  next
    case (Inr oid)
    note cp = createProject_cases [OF Some Inr, of now st]
    have C: ?C using Some Inr by simp
    consider (t) "\<not> ?T" | (d) "?T" "\<not> ?D" | (r) "?T" "?D" "\<not> ?R" | (ok) "?T" "?D" "?R"
      by blast
    then show ?thesis
    proof cases
      case t
      then have r: "createProject now st data = (Inl (Error titleTooShort), st)"
        unfolding cp by simp
      have "\<not> ?S" ?I by (simp_all add: r)
      moreover have ?F using t by (simp add: r del: not_ex)
      ultimately show ?thesis using t by blast
    next
      case d
      then have r: "createProject now st data = (Inl (Error descriptionTooShort), st)"
        unfolding cp by simp
      have "\<not> ?S" ?I by (simp_all add: r)
      moreover have ?F using d by (simp add: r del: not_ex)
      ultimately show ?thesis using d by blast
    next
      case r
      then have r': "createProject now st data = (Inl (Error requirementsTooShort), st)"
        unfolding cp by simp
      have "\<not> ?S" ?I by (simp_all add: r')
      moreover have ?F using r by (simp add: r' del: not_ex)
      ultimately show ?thesis using r by blast
    next
      case ok
      then have r: "createProject now st data =
          (Inr (ProjectModel_new now (newObjectId st) (projectDataOf oid data)),
           st\<lparr>projects := projects st
              @ [ProjectModel_new now (newObjectId st) (projectDataOf oid data)]\<rparr>)"
        unfolding cp by simp
      have ?S ?F ?I by (simp_all add: r)
      then show ?thesis using ok C by blast
    qed
  qed
qed

theorem createProject_succeeds_iff_witness:
  "(\<exists>doc st'. createProject 7 emptyStore validProjectInput = (Inr doc, st'))
   \<and> createProject 7 emptyStore scenarioProject = (Inl BSONError, emptyStore)
   \<and> (\<exists>c. ip_clientId scenarioProject = Some c \<and> ObjectId c = Inl BSONError)"
proof -
  have ok: "(\<exists>c oid. ip_clientId validProjectInput = Some c \<and> ObjectId c = Inr oid) \<and>
      (\<exists>t. ip_title validProjectInput = Some t \<and> 10 \<le> length (trim t)) \<and>
      (\<exists>d. ip_description validProjectInput = Some d \<and> 50 \<le> length (trim d)) \<and>
      (\<exists>r. ip_requirements validProjectInput = Some r \<and> 20 \<le> length (trim r))"
    by (simp add: validProjectInput_def validProjectInput_clientId validProjectInput_lengths)
  have a: "\<exists>doc st'. createProject 7 emptyStore validProjectInput = (Inr doc, st')"
    by (rule iffD2 [OF createProject_succeeds_iff [THEN conjunct1]]) (rule ok)
  have r: "createProject 7 emptyStore scenarioProject = (Inl BSONError, emptyStore)"
    by (simp add: scenarioProject_def validProjectInput_def createProject_def scenario_clientId)
  from createProject_succeeds_iff [of 7 emptyStore scenarioProject,
      THEN conjunct2, THEN conjunct1, rule_format, OF r]
  have "\<exists>c. ip_clientId scenarioProject = Some c \<and> ObjectId c = Inl BSONError"
    by simp
  with a r show ?thesis by simp
qed

text \<open>
  The scenario input of the specification, with \<open>clientId\<close> \<open>"U1"\<close>: all three lengths
  suffice, and the call raises.
\<close>

theorem createProject_succeeds_iff_counterexample:
  "ip_title scenarioProject = Some (lit ''Need a landing page built'')
   \<and> 10 \<le> length (trim (lit ''Need a landing page built''))
   \<and> ip_description scenarioProject = Some (lit
        ''  A responsive landing page for our new product launch, with signup form.  '')
   \<and> 50 \<le> length (trim (lit
        ''  A responsive landing page for our new product launch, with signup form.  ''))
   \<and> ip_requirements scenarioProject = Some (lit ''React, Tailwind, deployed on Vercel'')
   \<and> 20 \<le> length (trim (lit ''React, Tailwind, deployed on Vercel''))
   \<and> createProject 7 emptyStore scenarioProject = (Inl BSONError, emptyStore)"
  by (simp add: validProjectInput_lengths scenarioProject_def validProjectInput_def
      createProject_def scenario_clientId)

text \<open>
  Claim C4, as amended. For an input whose \<open>clientId\<close> is the text of an ObjectId, the
  checks are decided in the order title, description, requirements, and the failure
  raised is that of the first check that fails; the store is left as it was.
\<close>

theorem createProject_check_order:
  assumes "ip_clientId data = Some c" and "ObjectId c = Inr oid"
  shows "(\<not> (\<exists>t. ip_title data = Some t \<and> 10 \<le> length (trim t)) \<longrightarrow>
            createProject now st data = (Inl (Error titleTooShort), st))
       \<and> ((\<exists>t. ip_title data = Some t \<and> 10 \<le> length (trim t)) \<and>
          \<not> (\<exists>d. ip_description data = Some d \<and> 50 \<le> length (trim d)) \<longrightarrow>
            createProject now st data = (Inl (Error descriptionTooShort), st))
       \<and> ((\<exists>t. ip_title data = Some t \<and> 10 \<le> length (trim t)) \<and>
          (\<exists>d. ip_description data = Some d \<and> 50 \<le> length (trim d)) \<and>
          \<not> (\<exists>r. ip_requirements data = Some r \<and> 20 \<le> length (trim r)) \<longrightarrow>
            createProject now st data = (Inl (Error requirementsTooShort), st))"
  unfolding createProject_cases [OF assms, of now st]
  by (simp del: not_ex)

theorem createProject_check_order_witness:
  "createProject 7 emptyStore allTooShort = (Inl (Error titleTooShort), emptyStore)
   \<and> createProject 7 emptyStore briefNoRequirements
       = (Inl (Error descriptionTooShort), emptyStore)
   \<and> createProject 7 emptyStore noRequirements
       = (Inl (Error requirementsTooShort), emptyStore)"
proof -
  have c: "ip_clientId allTooShort = Some (lit ''507f1f77bcf86cd799439011'')"
    "ip_clientId briefNoRequirements = Some (lit ''507f1f77bcf86cd799439011'')"
    "ip_clientId noRequirements = Some (lit ''507f1f77bcf86cd799439011'')"
    by (simp_all add: allTooShort_def briefNoRequirements_def noRequirements_def
        validProjectInput_def)
  have brief: "length (trim (lit ''  brief  '')) = 5"
    by (simp add: trim_def lit_def isWhiteSpace_def)
  have t: "\<not> (\<exists>t. ip_title allTooShort = Some t \<and> 10 \<le> length (trim t))"
    by (simp add: allTooShort_def validProjectInput_def validProjectInput_lengths)
  have d: "(\<exists>t. ip_title briefNoRequirements = Some t \<and> 10 \<le> length (trim t))
      \<and> \<not> (\<exists>d. ip_description briefNoRequirements = Some d \<and> 50 \<le> length (trim d))"
    by (simp add: briefNoRequirements_def validProjectInput_def validProjectInput_lengths brief)
  have r: "(\<exists>t. ip_title noRequirements = Some t \<and> 10 \<le> length (trim t))
      \<and> (\<exists>d. ip_description noRequirements = Some d \<and> 50 \<le> length (trim d))
      \<and> \<not> (\<exists>r. ip_requirements noRequirements = Some r \<and> 20 \<le> length (trim r))"
    by (simp add: noRequirements_def validProjectInput_def validProjectInput_lengths)
  from createProject_check_order [OF c(1) validProjectInput_clientId, of 7 emptyStore,
      THEN conjunct1, rule_format, OF t]
  have "createProject 7 emptyStore allTooShort = (Inl (Error titleTooShort), emptyStore)" .
  moreover
  from createProject_check_order [OF c(2) validProjectInput_clientId, of 7 emptyStore,
      THEN conjunct2, THEN conjunct1, rule_format, OF d]
  have "createProject 7 emptyStore briefNoRequirements
       = (Inl (Error descriptionTooShort), emptyStore)" .
  moreover
  from createProject_check_order [OF c(3) validProjectInput_clientId, of 7 emptyStore,
      THEN conjunct2, THEN conjunct2, rule_format, OF r]
  have "createProject 7 emptyStore noRequirements
       = (Inl (Error requirementsTooShort), emptyStore)" .
  ultimately show ?thesis by (intro conjI)
qed

text \<open>
  Without a \<open>clientId\<close> the failure raised is not that of the title check, although the
  title is too short.
\<close>

theorem createProject_check_order_counterexample:
  "ip_title shortTitleNoClient = Some (lit ''short'')
   \<and> length (trim (lit ''short'')) < 10
   \<and> createProject 7 emptyStore shortTitleNoClient = (Inl TypeError, emptyStore)
   \<and> TypeError \<noteq> Error titleTooShort"
  by (simp add: shortTitleNoClient_def validProjectInput_def validProjectInput_lengths
      createProject_def)

text \<open>
  Claim C5. A valid input that omits \<open>budget\<close>, \<open>timeframe\<close> and \<open>status\<close> is created, and
  the returned document has status \<open>"open"\<close>, budget \<open>"$1,000 - $5,000"\<close>, timeframe
  \<open>"2-4 weeks"\<close>, and as skills the list supplied, or the empty list when none is.
\<close>

theorem createProject_defaults:
  assumes "ip_clientId data = Some c" and "ObjectId c = Inr oid"
    and "ip_title data = Some t" and "10 \<le> length (trim t)"
    and "ip_description data = Some d" and "50 \<le> length (trim d)"
    and "ip_requirements data = Some r" and "20 \<le> length (trim r)"
    and "ip_budget data = None" and "ip_timeframe data = None" and "ip_status data = None"
  shows "\<exists>doc. createProject now st data = (Inr doc, st\<lparr>projects := projects st @ [doc]\<rparr>)
           \<and> p_status doc = Some (lit ''open'')
           \<and> p_budget doc = Some (lit ''$1,000 - $5,000'')
           \<and> p_timeframe doc = Some (lit ''2-4 weeks'')
           \<and> p_skills doc = (case ip_skills data of Some xs \<Rightarrow> xs | None \<Rightarrow> [])"
proof -
  let ?doc = "ProjectModel_new now (newObjectId st) (projectDataOf oid data)"
  have "createProject now st data = (Inr ?doc, st\<lparr>projects := projects st @ [?doc]\<rparr>)"
    unfolding createProject_cases [OF assms(1,2), of now st] using assms(3-8) by simp
  moreover have "p_status ?doc = Some (lit ''open'')"
    "p_budget ?doc = Some (lit ''$1,000 - $5,000'')"
    "p_timeframe ?doc = Some (lit ''2-4 weeks'')"
    "p_skills ?doc = (case ip_skills data of Some xs \<Rightarrow> xs | None \<Rightarrow> [])"
    using assms(9-11) by (simp_all add: ProjectModel_new_def projectDataOf_def orElse_def)
  ultimately show ?thesis by blast
qed

theorem createProject_defaults_witness:
  "\<exists>doc. createProject 7 emptyStore validProjectInput
            = (Inr doc, emptyStore\<lparr>projects := projects emptyStore @ [doc]\<rparr>)
     \<and> p_status doc = Some (lit ''open'')
     \<and> p_budget doc = Some (lit ''$1,000 - $5,000'')
     \<and> p_timeframe doc = Some (lit ''2-4 weeks'')
     \<and> p_skills doc = [lit ''react'']"
proof -
  have h: "ip_clientId validProjectInput = Some (lit ''507f1f77bcf86cd799439011'')"
    "ip_title validProjectInput = Some (lit ''Need a landing page built'')"
    "ip_description validProjectInput = Some (lit
        ''  A responsive landing page for our new product launch, with signup form.  '')"
    "ip_requirements validProjectInput = Some (lit ''React, Tailwind, deployed on Vercel'')"
    "ip_budget validProjectInput = None" "ip_timeframe validProjectInput = None"
    "ip_status validProjectInput = None"
    by (simp_all add: validProjectInput_def)
  have s: "ip_skills validProjectInput = Some [lit ''react'']"
    by (simp add: validProjectInput_def)
  have l: "10 \<le> length (trim (lit ''Need a landing page built''))"
    "50 \<le> length (trim (lit
        ''  A responsive landing page for our new product launch, with signup form.  ''))"
    "20 \<le> length (trim (lit ''React, Tailwind, deployed on Vercel''))"
    by (simp_all add: validProjectInput_lengths)
  from createProject_defaults [OF h(1) validProjectInput_clientId h(2) l(1) h(3) l(2) h(4) l(3)
      h(5) h(6) h(7), of 7 emptyStore]
  show ?thesis by (simp add: s)
qed

text \<open>
  Claim C10. When \<open>clientId\<close> is absent or is not the text of an ObjectId, the call raises
  the coercion's error whatever the title, description and requirements are, so none of
  the length checks decides the outcome, and the store is left as it was.
\<close>

theorem createProject_clientId_first:
  assumes "ip_clientId data = None \<or> (\<exists>c e. ip_clientId data = Some c \<and> ObjectId c = Inl e)"
  shows "\<exists>e. (e = TypeError \<or> e = BSONError) \<and>
           (\<forall>t d r. createProject now st
               (data\<lparr>ip_title := t, ip_description := d, ip_requirements := r\<rparr>) = (Inl e, st))"
proof (cases "ip_clientId data")
  case None
  then have "\<forall>t d r. createProject now st
      (data\<lparr>ip_title := t, ip_description := d, ip_requirements := r\<rparr>) = (Inl TypeError, st)"
    by (simp add: createProject_def)
  then show ?thesis by blast
next
  case (Some c)
  with assms obtain e where "ObjectId c = Inl e" by auto
  then have "ObjectId c = Inl BSONError" by (simp add: ObjectId_error)
  with Some have "\<forall>t d r. createProject now st
      (data\<lparr>ip_title := t, ip_description := d, ip_requirements := r\<rparr>) = (Inl BSONError, st)"
    by (simp add: createProject_def)
  then show ?thesis by blast
qed

theorem createProject_clientId_first_witness:
  "createProject 7 emptyStore shortTitleNoClient = (Inl TypeError, emptyStore)
   \<and> createProject 7 emptyStore scenarioProject = (Inl BSONError, emptyStore)"
proof -
  have a: "ip_clientId shortTitleNoClient = None
      \<or> (\<exists>c e. ip_clientId shortTitleNoClient = Some c \<and> ObjectId c = Inl e)"
    by (simp add: shortTitleNoClient_def validProjectInput_def)
  have b: "ip_clientId scenarioProject = None
      \<or> (\<exists>c e. ip_clientId scenarioProject = Some c \<and> ObjectId c = Inl e)"
    by (simp add: scenarioProject_def validProjectInput_def scenario_clientId)
  from createProject_clientId_first [OF a, of 7 emptyStore]
  obtain e1 where e1: "e1 = TypeError \<or> e1 = BSONError"
    "\<forall>t d r. createProject 7 emptyStore
       (shortTitleNoClient\<lparr>ip_title := t, ip_description := d, ip_requirements := r\<rparr>)
       = (Inl e1, emptyStore)" by blast
  from e1(2) have "createProject 7 emptyStore
       (shortTitleNoClient\<lparr>ip_title := ip_title shortTitleNoClient,
          ip_description := ip_description shortTitleNoClient,
          ip_requirements := ip_requirements shortTitleNoClient\<rparr>) = (Inl e1, emptyStore)"
    by blast
  then have r1: "createProject 7 emptyStore shortTitleNoClient = (Inl e1, emptyStore)" by simp
  have "createProject 7 emptyStore shortTitleNoClient = (Inl TypeError, emptyStore)"
    by (simp add: shortTitleNoClient_def validProjectInput_def createProject_def)
  with r1 have t1: "e1 = TypeError" by simp
  from createProject_clientId_first [OF b, of 7 emptyStore]
  obtain e2 where e2: "e2 = TypeError \<or> e2 = BSONError"
    "\<forall>t d r. createProject 7 emptyStore
       (scenarioProject\<lparr>ip_title := t, ip_description := d, ip_requirements := r\<rparr>)
       = (Inl e2, emptyStore)" by blast
  from e2(2) have "createProject 7 emptyStore
       (scenarioProject\<lparr>ip_title := ip_title scenarioProject,
          ip_description := ip_description scenarioProject,
          ip_requirements := ip_requirements scenarioProject\<rparr>) = (Inl e2, emptyStore)"
    by blast
  then have r2: "createProject 7 emptyStore scenarioProject = (Inl e2, emptyStore)" by simp
  have "createProject 7 emptyStore scenarioProject = (Inl BSONError, emptyStore)"
    by (simp add: scenarioProject_def validProjectInput_def createProject_def scenario_clientId)
  with r2 have "e2 = BSONError" by simp
  with r1 r2 t1 show ?thesis by simp
qed

section \<open>Properties of the User methods\<close>

lemma adminUser_valid: "UserModel_validate adminUser = []"
  by (simp add: UserModel_validate_def adminUser_def checkRequired_def lit_def)

lemma adminStore_eq: "adminStore = emptyStore\<lparr>users := [adminDoc]\<rparr>"
  by (simp add: adminStore_def connect_def emptyStore_def UserModel_save_def adminUser_valid
      Let_def newObjectId_def allIds_def adminDoc_def)

lemma users_adminStore: "users adminStore = [adminDoc]"
  by (simp add: adminStore_eq emptyStore_def)

lemma adminDoc_fields:
  "u_id adminDoc = 1" "u_username adminDoc = lit ''admin''"
  "u_email adminDoc = lit ''admin@example.com''"
  by (simp_all add: adminDoc_def UserModel_new_def adminUser_def valueOf_def)

lemma adminId_cast: "castObjectId adminId = Inr 1"
  by (simp add: castObjectId_def adminId_def ObjectId_def lit_def hexDigit_def)

lemma malformed_cast: "castObjectId (lit ''abc'') = Inl CastError"
  by (simp add: castObjectId_def ObjectId_def lit_def)

lemma castObjectId_error: "castObjectId s = Inl e \<Longrightarrow> e = CastError"
  by (simp add: castObjectId_def split: sum.splits)

lemma find_Some_mem: "find P xs = Some x \<Longrightarrow> x \<in> set xs \<and> P x"
  by (induction xs) (auto split: if_splits)

lemma find_ex: "\<exists>x\<in>set xs. P x \<Longrightarrow> \<exists>x. find P xs = Some x"
  by (induction xs) auto

lemma replaceFirst_same: "find P xs = Some x \<Longrightarrow> replaceFirst P x xs = xs"
  by (induction xs) (auto split: if_splits)

lemma applyUserUpdate_empty: "applyUserUpdate emptyUserUpdate u = u"
  by (simp add: applyUserUpdate_def emptyUserUpdate_def)

text \<open>
  Claim C3, as amended. When the store holds a User with the \<open>username\<close> or the \<open>email\<close>
  that a \<open>createUser\<close> call supplies, the call fails and the store, with its number of
  Users, is as before. The failure is the conflict of the unique index when the input
  passes the schema's validation (every required field present and not empty), and the
  validation error otherwise, since validation runs before the insert.
\<close>

theorem createUser_duplicate:
  assumes "u \<in> set (users st)"
    and "iu_username data = Some (u_username u) \<or> iu_email data = Some (u_email u)"
  shows "\<exists>e. createUser now st data = (Inl e, st)
           \<and> (UserModel_validate data = [] \<longrightarrow> e = DuplicateKey)
           \<and> (UserModel_validate data \<noteq> [] \<longrightarrow> e = ValidationError (UserModel_validate data))
           \<and> length (users (snd (createUser now st data))) = length (users st)"
proof (cases "UserModel_validate data = []")
  case True
  from assms have "list_ex (\<lambda>v. u_username v = u_username (UserModel_new now (newObjectId st) data)
      \<or> u_email v = u_email (UserModel_new now (newObjectId st) data)) (users st)"
    unfolding list_ex_iff by (auto simp: UserModel_new_def valueOf_def)
  with True have "createUser now st data = (Inl DuplicateKey, st)"
    by (simp add: createUser_def UserModel_save_def Let_def)
  with True show ?thesis by simp
next
  case False
  then have "createUser now st data = (Inl (ValidationError (UserModel_validate data)), st)"
    by (simp add: createUser_def UserModel_save_def)
  with False show ?thesis by simp
qed

theorem createUser_duplicate_witness:
  "createUser 5 adminStore adminUser = (Inl DuplicateKey, adminStore)
   \<and> length (users (snd (createUser 5 adminStore adminUser))) = length (users adminStore)
   \<and> createUser 5 adminStore adminEmptyPassword
       = (Inl (ValidationError (UserModel_validate adminEmptyPassword)), adminStore)"
proof -
  have m: "adminDoc \<in> set (users adminStore)" by (simp add: users_adminStore)
  have d: "iu_username adminUser = Some (u_username adminDoc)
      \<or> iu_email adminUser = Some (u_email adminDoc)"
    by (simp add: adminDoc_fields adminUser_def)
  have d': "iu_username adminEmptyPassword = Some (u_username adminDoc)
      \<or> iu_email adminEmptyPassword = Some (u_email adminDoc)"
    by (simp add: adminDoc_fields adminUser_def adminEmptyPassword_def)
  have v: "UserModel_validate adminEmptyPassword \<noteq> []"
    by (simp add: UserModel_validate_def adminEmptyPassword_def checkRequired_def)
  from createUser_duplicate [OF m d, of 5] adminUser_valid
  have "createUser 5 adminStore adminUser = (Inl DuplicateKey, adminStore)
   \<and> length (users (snd (createUser 5 adminStore adminUser))) = length (users adminStore)"
    by auto
  moreover from createUser_duplicate [OF m d', of 5] v
  have "createUser 5 adminStore adminEmptyPassword
       = (Inl (ValidationError (UserModel_validate adminEmptyPassword)), adminStore)"
    by auto
  ultimately show ?thesis by (intro conjI) simp_all
qed

text \<open>
  The administrator's \<open>username\<close> and \<open>email\<close> again, with an empty password: the call fails
  with the validation error of \<open>password\<close>, not with a conflict.
\<close>

theorem createUser_duplicate_counterexample:
  "adminDoc \<in> set (users adminStore)
   \<and> iu_username adminEmptyPassword = Some (u_username adminDoc)
   \<and> createUser 5 adminStore adminEmptyPassword
       = (Inl (ValidationError [''password'']), adminStore)
   \<and> ValidationError [''password''] \<noteq> DuplicateKey"
  by (simp add: users_adminStore adminDoc_fields adminEmptyPassword_def adminUser_def
      createUser_def UserModel_save_def UserModel_validate_def checkRequired_def lit_def)

text \<open>
  Claim C7. For the \<open>_id\<close> of a stored User, \<open>updateUser\<close> with the empty partial returns
  the document stored under it, unchanged, and leaves the store exactly as it was.
\<close>

theorem updateUser_empty:
  assumes "castObjectId id' = Inr oid" and "oid \<in> u_id ` set (users st)"
  shows "\<exists>u\<in>set (users st). u_id u = oid
           \<and> find (\<lambda>v. u_id v = oid) (users st) = Some u
           \<and> updateUser st id' emptyUserUpdate = (Inr (Some u), st)"
proof -
  from assms(2) have "\<exists>u\<in>set (users st). u_id u = oid" by auto
  then obtain u where f: "find (\<lambda>v. u_id v = oid) (users st) = Some u"
    using find_ex [of "users st" "\<lambda>v. u_id v = oid"] by blast
  then have m: "u \<in> set (users st)" "u_id u = oid"
    using find_Some_mem [OF f] by simp_all
  have "updateUser st id' emptyUserUpdate = (Inr (Some u), st)"
    by (simp add: updateUser_def assms(1) f applyUserUpdate_empty Let_def replaceFirst_same)
  with f m show ?thesis by blast
qed

theorem updateUser_empty_witness:
  "updateUser adminStore adminId emptyUserUpdate = (Inr (Some adminDoc), adminStore)"
proof -
  have m: "1 \<in> u_id ` set (users adminStore)"
    by (simp add: users_adminStore adminDoc_fields)
  from updateUser_empty [OF adminId_cast m] show ?thesis
    by (simp add: users_adminStore)
qed

text \<open>
  Claim C8. \<open>getUser\<close> never raises and never changes the store: an identifier that cannot
  be cast gives \<open>null\<close>, the \<open>_id\<close> of a stored User gives that document, and any other
  \<open>_id\<close> gives \<open>null\<close>.
\<close>

theorem getUser_never_raises:
  "(\<exists>r. getUser st id' = (Inr r, st))
   \<and> (\<forall>e. castObjectId id' = Inl e \<longrightarrow> getUser st id' = (Inr None, st))
   \<and> (\<forall>oid. castObjectId id' = Inr oid \<and> oid \<in> u_id ` set (users st) \<longrightarrow>
         (\<exists>u\<in>set (users st). u_id u = oid
            \<and> find (\<lambda>v. u_id v = oid) (users st) = Some u
            \<and> getUser st id' = (Inr (Some u), st)))
   \<and> (\<forall>oid. castObjectId id' = Inr oid \<and> oid \<notin> u_id ` set (users st) \<longrightarrow>
         getUser st id' = (Inr None, st))"
proof (cases "castObjectId id'")
  case (Inl e)
  then show ?thesis by (simp add: getUser_def UserModel_findById_def)
next
  case (Inr oid)
  then have g: "getUser st id' = (Inr (find (\<lambda>v. u_id v = oid) (users st)), st)"
    by (simp add: getUser_def UserModel_findById_def)
  have a: "\<exists>u\<in>set (users st). u_id u = oid \<and> find (\<lambda>v. u_id v = oid) (users st) = Some u"
    if "oid \<in> u_id ` set (users st)"
  proof -
    from that have "\<exists>u\<in>set (users st). u_id u = oid" by auto
    then obtain u where f: "find (\<lambda>v. u_id v = oid) (users st) = Some u"
      using find_ex [of "users st" "\<lambda>v. u_id v = oid"] by blast
    with find_Some_mem [OF f] show ?thesis by blast
  qed
  have b: "find (\<lambda>v. u_id v = oid) (users st) = None" if "oid \<notin> u_id ` set (users st)"
    using that by (auto simp: find_None_iff)
  show ?thesis using Inr a b by (auto simp: g)
qed

theorem getUser_never_raises_witness:
  "getUser adminStore (lit ''abc'') = (Inr None, adminStore)
   \<and> getUser adminStore adminId = (Inr (Some adminDoc), adminStore)
   \<and> getUser adminStore unknownId = (Inr None, adminStore)"
proof -
  have m: "castObjectId adminId = Inr 1 \<and> 1 \<in> u_id ` set (users adminStore)"
    by (simp add: users_adminStore adminDoc_fields adminId_cast)
  have n: "castObjectId unknownId = Inr 15 \<and> 15 \<notin> u_id ` set (users adminStore)"
    by (simp add: users_adminStore adminDoc_fields unknownId_def castObjectId_def ObjectId_def
        lit_def hexDigit_def)
  note g = getUser_never_raises [of adminStore]
  from g [of "lit ''abc''", THEN conjunct2, THEN conjunct1, rule_format, OF malformed_cast]
  have "getUser adminStore (lit ''abc'') = (Inr None, adminStore)" .
  moreover from g [of adminId, THEN conjunct2, THEN conjunct2, THEN conjunct1, rule_format, OF m]
  have "getUser adminStore adminId = (Inr (Some adminDoc), adminStore)"
    by (simp add: users_adminStore)
  moreover from g [of unknownId, THEN conjunct2, THEN conjunct2, THEN conjunct2, rule_format, OF n]
  have "getUser adminStore unknownId = (Inr None, adminStore)" .
  ultimately show ?thesis by (intro conjI)
qed

section \<open>Properties of the Project listing, the bulk delete and the testimonials\<close>

lemma castObjectIds_error: "castObjectIds ids = Inl e \<Longrightarrow> e = CastError"
  by (induction ids arbitrary: e) (auto split: sum.splits dest: castObjectId_error)










lemma reviews_UserModel_save: "reviews (snd (UserModel_save now st d)) = reviews st"
  by (simp add: UserModel_save_def Let_def)

lemma reviews_connect: "reviews (connect now st) = reviews st"
  by (simp add: connect_def reviews_UserModel_save)

lemma reviews_createUser: "reviews (snd (createUser now st d)) = reviews st"
  by (simp add: createUser_def reviews_UserModel_save)

lemma reviews_updateUser: "reviews (snd (updateUser st i d)) = reviews st"
  by (simp add: updateUser_def Let_def split: sum.splits option.splits)

lemma reviews_createProject: "reviews (snd (createProject now st d)) = reviews st"
  by (simp add: createProject_def ProjectModel_save_def Let_def split: sum.splits option.splits)

lemma reviews_updateProject: "reviews (snd (updateProject st i d)) = reviews st"
  by (simp add: updateProject_def Let_def split: sum.splits option.splits)

lemma reviews_deleteProject: "reviews (snd (deleteProject st i)) = reviews st"
  by (simp add: deleteProject_def split: sum.splits option.splits)

lemma reviews_deleteProjects: "reviews (snd (deleteProjects st is)) = reviews st"
  by (simp add: deleteProjects_def split: sum.splits)

lemma reviews_createApplication: "reviews (snd (createApplication now st d)) = reviews st"
  by (simp add: createApplication_def ApplicationModel_save_def Let_def)

lemma reviews_createContactMessage: "reviews (snd (createContactMessage now st d)) = reviews st"
  by (simp add: createContactMessage_def ContactMessageModel_save_def Let_def)

lemma reviews_createReview:
  "reviews (snd (createReview now st d)) = reviews st
   \<or> reviews (snd (createReview now st d)) = reviews st @ [ReviewModel_new now (newObjectId st) d]"
  by (simp add: createReview_def ReviewModel_save_def Let_def)

lemma reachable_not_featured:
  "reachable st \<Longrightarrow> \<forall>r\<in>set (reviews st). r_featured r = None"
proof (induction rule: reachable.induct)
  case reachable_empty
  show ?case by (simp add: emptyStore_def)
next
  case (reachable_createReview st now rdata)
  from reviews_createReview [of now st rdata] reachable_createReview.IH show ?case
    by (auto simp: ReviewModel_new_def)
qed (simp_all add: reviews_connect reviews_createUser reviews_updateUser reviews_createProject
    reviews_updateProject reviews_deleteProject reviews_deleteProjects
    reviews_createApplication reviews_createContactMessage)

text \<open>
  Claim C9. In every store reachable through the bootstrap and the writing methods,
  \<open>listTestimonials\<close> returns the empty sequence: no write sets \<open>featured\<close>.
\<close>

theorem listTestimonials_empty:
  assumes "reachable st"
  shows "listTestimonials st = (Inr [], st)"
proof -
  from reachable_not_featured [OF assms]
  have "filter (\<lambda>r. r_featured r = Some True) (reviews st) = []"
    by (auto simp: filter_empty_conv)
  then show ?thesis by (simp add: listTestimonials_def)
qed

theorem listTestimonials_empty_witness:
  "reachable reviewedStore \<and> reviews reviewedStore \<noteq> []
   \<and> listTestimonials reviewedStore = (Inr [], reviewedStore)"
proof -
  have r: "reachable reviewedStore"
    unfolding reviewedStore_def
    by (intro reachable_createReview reachable_connect reachable_empty)
  have "reviews reviewedStore \<noteq> []"
    by (simp add: reviewedStore_def createReview_def ReviewModel_save_def
        ReviewModel_validate_def sampleReview_def Let_def)
  with r listTestimonials_empty [OF r] show ?thesis by simp
qed

lemma orElse_cases:
  "orElse v d = (if truthy v then valueOf v else d)"
  by (simp add: orElse_def truthy_def valueOf_def split: option.splits)

lemma validProject_populated:
  "v_title (validProject now row) \<noteq> None"
  "v_description (validProject now row) \<noteq> None"
  "v_requirements (validProject now row) \<noteq> None"
  "v_budget (validProject now row) \<noteq> None"
  "v_timeframe (validProject now row) \<noteq> None"
  "v_status (validProject now row) \<noteq> None"
  "v_clientName (validProject now row) \<noteq> None"
  "v_createdAt (validProject now row) \<noteq> None"
  by (simp_all add: validProject_def split: prod.splits)

lemma validProject_defaults:
  "v_title (validProject now (p, c))
     = Some (if truthy (p_title p) then valueOf (p_title p) else lit ''Untitled'')"
  "v_description (validProject now (p, c))
     = Some (if truthy (p_description p) then valueOf (p_description p)
             else lit ''No description provided'')"
  "v_requirements (validProject now (p, c))
     = Some (if truthy (p_requirements p) then valueOf (p_requirements p) else [])"
  "v_budget (validProject now (p, c))
     = Some (if truthy (p_budget p) then valueOf (p_budget p) else lit ''$1,000 - $5,000'')"
  "v_timeframe (validProject now (p, c))
     = Some (if truthy (p_timeframe p) then valueOf (p_timeframe p) else lit ''2-4 weeks'')"
  "v_status (validProject now (p, c))
     = Some (if truthy (p_status p) then valueOf (p_status p) else lit ''open'')"
  "v_clientName (validProject now (p, c))
     = Some (case c of None \<Rightarrow> lit ''Unknown Client''
             | Some u \<Rightarrow> if u_fullName u = [] then lit ''Unknown Client'' else u_fullName u)"
  "v_createdAt (validProject now (p, c))
     = Some (case p_createdAt p of Some t \<Rightarrow> t | None \<Rightarrow> now)"
  by (simp_all add: validProject_def orElse_cases truthy_def valueOf_def split: option.splits)

lemma sorted_desc_rev_sort_key:
  "sorted_wrt (\<lambda>a b. f b \<le> f a) (rev (sort_key f xs))"
proof -
  have "sorted (map f (sort_key f xs))" by (rule sorted_sort_key)
  then have "sorted_wrt (\<lambda>a b. f a \<le> f b) (sort_key f xs)"
    by (simp add: sorted_map)
  then show ?thesis by (simp add: sorted_wrt_rev)
qed

lemma set_fetched:
  "set (rev (sort_key f (if c then filter P xs else xs))) \<subseteq> set xs"
  by auto

lemma v_createdAt_dated:
  "p_createdAt p \<noteq> None \<Longrightarrow> v_createdAt (validProject now (populate st p)) = p_createdAt p"
  by (auto simp: validProject_def populate_def)

text \<open>
  Claim C2, as amended. The body of \<open>listProjects\<close> returns for whatever the query gives,
  and returns \<open>[]\<close> when the query fails. On the store, every returned item has title,
  description, requirements, budget, timeframe, status, client name and creation time
  present, each the stored value when that is truthy and else its fallback; the rows
  are in descending order of the stored creation time, a Project without one last. The
  creation times of the returned items are descending when every stored Project has a
  creation time; an item whose Project has none carries the current time instead.
\<close>

theorem listProjects_total:
  "(\<forall>fetched. \<exists>vs. listProjects_body now fetched = Inr vs)
   \<and> (\<forall>e. listProjects_body now (Inl e) = Inr [])
   \<and> (\<exists>rows. ProjectModel_find_populate_sort st status = Inr rows
        \<and> listProjects now st status = (Inr (map (validProject now) rows), st)
        \<and> sorted_wrt (\<lambda>a b. p_createdAt (fst b) \<le> p_createdAt (fst a)) rows
        \<and> (\<forall>v\<in>set (map (validProject now) rows).
              v_title v \<noteq> None \<and> v_description v \<noteq> None \<and> v_requirements v \<noteq> None
              \<and> v_budget v \<noteq> None \<and> v_timeframe v \<noteq> None \<and> v_status v \<noteq> None
              \<and> v_clientName v \<noteq> None \<and> v_createdAt v \<noteq> None)
        \<and> ((\<forall>p\<in>set (projects st). p_createdAt p \<noteq> None) \<longrightarrow>
              sorted_wrt (\<lambda>a b. v_createdAt b \<le> v_createdAt a) (map (validProject now) rows)))
   \<and> (\<forall>p c.
        v_title (validProject now (p, c))
          = Some (if truthy (p_title p) then valueOf (p_title p) else lit ''Untitled'')
        \<and> v_description (validProject now (p, c))
          = Some (if truthy (p_description p) then valueOf (p_description p)
                  else lit ''No description provided'')
        \<and> v_requirements (validProject now (p, c))
          = Some (if truthy (p_requirements p) then valueOf (p_requirements p) else [])
        \<and> v_budget (validProject now (p, c))
          = Some (if truthy (p_budget p) then valueOf (p_budget p)
                  else lit ''$1,000 - $5,000'')
        \<and> v_timeframe (validProject now (p, c))
          = Some (if truthy (p_timeframe p) then valueOf (p_timeframe p) else lit ''2-4 weeks'')
        \<and> v_status (validProject now (p, c))
          = Some (if truthy (p_status p) then valueOf (p_status p) else lit ''open'')
        \<and> v_clientName (validProject now (p, c))
          = Some (case c of None \<Rightarrow> lit ''Unknown Client''
                  | Some u \<Rightarrow> if u_fullName u = [] then lit ''Unknown Client'' else u_fullName u)
        \<and> v_createdAt (validProject now (p, c))
          = Some (case p_createdAt p of Some t \<Rightarrow> t | None \<Rightarrow> now))"
  (is "?A \<and> ?B \<and> ?C \<and> ?D")
proof -
  have A: ?A by (simp add: listProjects_body_def split: sum.splits)
  have B: ?B by (simp add: listProjects_body_def)
  have D: ?D by (intro allI conjI validProject_defaults)
  define ps where "ps = rev (sort_key p_createdAt
      (if truthy status then filter (\<lambda>p. p_status p = status) (projects st) else projects st))"
  define rows where "rows = map (populate st) ps"
  have f: "ProjectModel_find_populate_sort st status = Inr rows"
    by (simp add: ProjectModel_find_populate_sort_def rows_def ps_def)
  have l: "listProjects now st status = (Inr (map (validProject now) rows), st)"
    by (simp add: listProjects_def listProjects_body_def f)
  have sp: "sorted_wrt (\<lambda>a b. p_createdAt b \<le> p_createdAt a) ps"
    unfolding ps_def by (rule sorted_desc_rev_sort_key)
  have fst_populate: "\<And>p. fst (populate st p) = p" by (simp add: populate_def)
  have s1: "sorted_wrt (\<lambda>a b. p_createdAt (fst b) \<le> p_createdAt (fst a)) rows"
    unfolding rows_def sorted_wrt_map fst_populate by (rule sp)
  have pop: "\<forall>v\<in>set (map (validProject now) rows).
              v_title v \<noteq> None \<and> v_description v \<noteq> None \<and> v_requirements v \<noteq> None
              \<and> v_budget v \<noteq> None \<and> v_timeframe v \<noteq> None \<and> v_status v \<noteq> None
              \<and> v_clientName v \<noteq> None \<and> v_createdAt v \<noteq> None"
  proof
    fix v assume "v \<in> set (map (validProject now) rows)"
    then obtain row where v: "v = validProject now row"
      unfolding set_map by (rule imageE)
    show "v_title v \<noteq> None \<and> v_description v \<noteq> None \<and> v_requirements v \<noteq> None
              \<and> v_budget v \<noteq> None \<and> v_timeframe v \<noteq> None \<and> v_status v \<noteq> None
              \<and> v_clientName v \<noteq> None \<and> v_createdAt v \<noteq> None"
      unfolding v by (intro conjI validProject_populated)
  qed
  have s2: "sorted_wrt (\<lambda>a b. v_createdAt b \<le> v_createdAt a) (map (validProject now) rows)"
    if all: "\<forall>p\<in>set (projects st). p_createdAt p \<noteq> None"
  proof -
    have sub: "set ps \<subseteq> set (projects st)" unfolding ps_def by (rule set_fetched)
    have "sorted_wrt (\<lambda>a b. v_createdAt (validProject now (populate st b))
              \<le> v_createdAt (validProject now (populate st a))) ps"
    proof (rule sorted_wrt_mono_rel [OF _ sp])
      fix a b assume ab: "a \<in> set ps" "b \<in> set ps" "p_createdAt b \<le> p_createdAt a"
      from ab(1) sub all have "p_createdAt a \<noteq> None" by blast
      then have a: "v_createdAt (validProject now (populate st a)) = p_createdAt a"
        by (rule v_createdAt_dated)
      from ab(2) sub all have "p_createdAt b \<noteq> None" by blast
      then have b: "v_createdAt (validProject now (populate st b)) = p_createdAt b"
        by (rule v_createdAt_dated)
      show "v_createdAt (validProject now (populate st b))
              \<le> v_createdAt (validProject now (populate st a))"
        unfolding a b by (rule ab(3))
    qed
    then show ?thesis unfolding rows_def sorted_wrt_map .
  qed
  have C: ?C
    by (intro exI [of _ rows] conjI f l s1 pop impI s2)
  show ?thesis by (intro conjI A B C D)
qed

lemma sample_fields:
  "p_createdAt datedProject = Some 5" "p_createdAt laterProject = Some 9"
  "p_createdAt undatedProject = None"
  "p_clientId datedProject = Some 1" "p_clientId laterProject = Some 1"
  "p_clientId undatedProject = Some 8"
  by (simp_all add: datedProject_def laterProject_def undatedProject_def)

lemma fetch_datedStore:
  "ProjectModel_find_populate_sort datedStore None
     = Inr [(laterProject, Some adminDoc), (datedProject, Some adminDoc)]"
  by (simp add: ProjectModel_find_populate_sort_def truthy_def datedStore_def populate_def
      sample_fields users_adminStore adminDoc_fields)

lemma fetch_undatedStore:
  "ProjectModel_find_populate_sort undatedStore None
     = Inr [(datedProject, Some adminDoc), (undatedProject, None)]"
  by (simp add: ProjectModel_find_populate_sort_def truthy_def undatedStore_def populate_def
      sample_fields users_adminStore adminDoc_fields)

theorem listProjects_total_witness:
  "listProjects 10 datedStore None
     = (Inr [validProject 10 (laterProject, Some adminDoc),
             validProject 10 (datedProject, Some adminDoc)], datedStore)
   \<and> sorted_wrt (\<lambda>a b. v_createdAt b \<le> v_createdAt a)
        [validProject 10 (laterProject, Some adminDoc),
         validProject 10 (datedProject, Some adminDoc)]
   \<and> v_title (validProject 10 (datedProject, Some adminDoc))
        = Some (lit ''Need a landing page built'')
   \<and> v_description (validProject 10 (datedProject, Some adminDoc))
        = Some (lit ''No description provided'')
   \<and> v_clientName (validProject 10 (undatedProject, None)) = Some (lit ''Unknown Client'')
   \<and> listProjects_body 10 (Inl CastError) = Inr []"
proof -
  have dated: "\<forall>p\<in>set (projects datedStore). p_createdAt p \<noteq> None"
    by (simp add: datedStore_def sample_fields)
  note t = listProjects_total [of 10 datedStore None]
  from t obtain rows where rows:
    "ProjectModel_find_populate_sort datedStore None = Inr rows"
    "listProjects 10 datedStore None = (Inr (map (validProject 10) rows), datedStore)"
    "(\<forall>p\<in>set (projects datedStore). p_createdAt p \<noteq> None) \<longrightarrow>
       sorted_wrt (\<lambda>a b. v_createdAt b \<le> v_createdAt a) (map (validProject 10) rows)"
    by blast
  from rows(1) have r: "rows = [(laterProject, Some adminDoc), (datedProject, Some adminDoc)]"
    by (simp add: fetch_datedStore)
  from rows(2) have a: "listProjects 10 datedStore None
     = (Inr [validProject 10 (laterProject, Some adminDoc),
             validProject 10 (datedProject, Some adminDoc)], datedStore)"
    by (simp add: r)
  from rows(3) dated have b: "sorted_wrt (\<lambda>a b. v_createdAt b \<le> v_createdAt a)
        [validProject 10 (laterProject, Some adminDoc),
         validProject 10 (datedProject, Some adminDoc)]"
    unfolding r by simp
  from t have d: "\<forall>p c.
        v_title (validProject 10 (p, c))
          = Some (if truthy (p_title p) then valueOf (p_title p) else lit ''Untitled'')
        \<and> v_description (validProject 10 (p, c))
          = Some (if truthy (p_description p) then valueOf (p_description p)
                  else lit ''No description provided'')
        \<and> v_requirements (validProject 10 (p, c))
          = Some (if truthy (p_requirements p) then valueOf (p_requirements p) else [])
        \<and> v_budget (validProject 10 (p, c))
          = Some (if truthy (p_budget p) then valueOf (p_budget p)
                  else lit ''$1,000 - $5,000'')
        \<and> v_timeframe (validProject 10 (p, c))
          = Some (if truthy (p_timeframe p) then valueOf (p_timeframe p) else lit ''2-4 weeks'')
        \<and> v_status (validProject 10 (p, c))
          = Some (if truthy (p_status p) then valueOf (p_status p) else lit ''open'')
        \<and> v_clientName (validProject 10 (p, c))
          = Some (case c of None \<Rightarrow> lit ''Unknown Client''
                  | Some u \<Rightarrow> if u_fullName u = [] then lit ''Unknown Client'' else u_fullName u)
        \<and> v_createdAt (validProject 10 (p, c))
          = Some (case p_createdAt p of Some t \<Rightarrow> t | None \<Rightarrow> 10)"
    by (elim conjE)
  have tt: "p_title datedProject = Some (lit ''Need a landing page built'')"
    "p_description datedProject = None"
    by (simp_all add: datedProject_def)
  have ne: "lit ''Need a landing page built'' \<noteq> []" by (simp add: lit_def)
  from d have "v_title (validProject 10 (datedProject, Some adminDoc))
        = Some (lit ''Need a landing page built'')"
    by (simp add: tt truthy_def valueOf_def ne)
  moreover from d have "v_description (validProject 10 (datedProject, Some adminDoc))
        = Some (lit ''No description provided'')"
    by (simp add: tt truthy_def)
  moreover from d have "v_clientName (validProject 10 (undatedProject, None))
        = Some (lit ''Unknown Client'')"
    by simp
  moreover from t have "listProjects_body 10 (Inl CastError) = Inr []" by blast
  ultimately show ?thesis using a b by blast
qed

text \<open>
  A Project without a stored creation time is listed last and shown with the current
  time, which is later than that of the item before it.
\<close>

theorem listProjects_total_counterexample:
  "listProjects 10 undatedStore None
     = (Inr [validProject 10 (datedProject, Some adminDoc),
             validProject 10 (undatedProject, None)], undatedStore)
   \<and> v_createdAt (validProject 10 (datedProject, Some adminDoc)) = Some 5
   \<and> v_createdAt (validProject 10 (undatedProject, None)) = Some 10
   \<and> (Some 5 :: nat option) < Some 10"
  by (simp add: listProjects_def listProjects_body_def fetch_undatedStore validProject_def
      sample_fields)

end
